theory Spec2Isabelle
  imports Main
begin

section \<open>The node-zero REST client of the agent installer\<close>

text \<open>
  A shallow embedding of package \<open>agent\<close> (the file that declares
  \<open>NodeZeroRestClient\<close>): the constructor \<open>NewNodeZeroRestClient\<close> and the five
  operations of the client. Go's multiple return values are pairs, a pointer or an
  interface value that may be \<open>nil\<close> is an \<open>option\<close>, and an \<open>error\<close> result is an
  \<open>error option\<close> (\<open>None\<close> is \<open>nil\<close>). Everything the code does to the outside (asset
  store, rendezvous derivation, REST calls, logrus) is recorded, in program order, in a
  list of events returned beside the result.
\<close>

subsection \<open>Errors, log entries, identifiers\<close>

text \<open>
  \<open>errors.New\<close> and \<open>errors.Wrap\<close>/\<open>errors.Wrapf\<close> of github.com/pkg/errors build the
  error values of this package; \<open>foreign\<close> stands for an error value handed over by a
  collaborator (asset store, rendezvous derivation, REST transport).
\<close>

datatype error =
    errors_New string
  | errors_Wrap error string
  | foreign string

text \<open>\<open>strfmt.UUID\<close> is a string type; \<open>*strfmt.UUID\<close> is \<open>UUID option\<close>.\<close>

type_synonym UUID = string

text \<open>\<open>context.Context\<close>, opaque.\<close>

datatype Context = Context nat

text \<open>
  The calls to logrus: \<open>logrus.Debug\<close> with an error value, \<open>logrus.Debug\<close> with a
  message, and \<open>logrus.Infof\<close> with a format and its one integer argument.
\<close>

datatype log_entry =
    Debug_error error
  | Debug string
  | Infof string nat

subsection \<open>Assets\<close>

text \<open>
  Modelled from the spec: the type \<open>agent.Config\<close> (pkg/types/agent) is not among the
  sources; the spec's AgentNetworkConfig "carries a single operator-declared rendezvous
  IP". \<open>agent_Config_zero\<close> is the value of the composite literal \<open>agent.Config{}\<close>.
\<close>

record agent_Config =
  RendezvousIP :: string

definition agent_Config_zero :: agent_Config where
  "agent_Config_zero = \<lparr>RendezvousIP = ''''\<rparr>"

text \<open>\<open>v1beta1.NMStateConfig\<close> of the assisted service, opaque.\<close>

datatype NMStateConfig = NMStateConfig string

text \<open>
  The three asset types, with the fields this file reads: \<open>AgentConfig.Config\<close> (a
  \<open>*agent.Config\<close>, passed on as it is), \<open>AgentManifests.NMStateConfigs\<close> (a
  \<open>[]*v1beta1.NMStateConfig\<close>; a nil slice is the empty list) and
  \<open>InstallConfig.Config.SSHKey\<close> (of an install config asset that holds its
  configuration). The asset types are declared in pkg/asset, outside these sources.
\<close>

record AgentConfig =
  Config :: "agent_Config option"

record AgentManifests =
  NMStateConfigs :: "NMStateConfig option list"

record types_InstallConfig =
  SSHKey :: string

record InstallConfig =
  Config :: types_InstallConfig

datatype asset_descriptor = AgentConfigAsset | AgentManifestsAsset | InstallConfigAsset

text \<open>
  The asset store after \<open>assetstore.NewStore\<close>: what \<open>Load\<close> returns for each of the
  three descriptors, as Go's pair (asset, error). The asset is \<open>None\<close> when \<open>Load\<close>
  returns a nil asset; the type assertions of the source are on the type \<open>Load\<close> was
  asked for.
\<close>

record Store =
  Load_AgentConfig :: "AgentConfig option \<times> error option"
  Load_AgentManifests :: "AgentManifests option \<times> error option"
  Load_InstallConfig :: "InstallConfig option \<times> error option"

subsection \<open>The client\<close>

record url_URL =
  Scheme :: string
  Host :: string
  Path :: string

record client_Config =
  URL :: "url_URL option"

text \<open>
  \<open>client.New(config)\<close> of the assisted service builds the API client for that
  configuration; it is a handle that stands for the configuration it is bound to.
\<close>

datatype AssistedInstall = client_New client_Config

record NodeZeroRestClient =
  Client :: AssistedInstall
  ctx :: Context
  config :: client_Config
  NodeZeroIP :: string
  NodeSSHKey :: "string list"

text \<open>
  \<open>net.JoinHostPort\<close> of the Go standard library: a host that contains a colon is taken
  for a literal IPv6 address and put in square brackets.
\<close>

definition JoinHostPort :: "string \<Rightarrow> string \<Rightarrow> string" where
  "JoinHostPort host port =
     (if CHR '':'' \<in> set host then ''['' @ host @ '']:'' @ port
      else host @ '':'' @ port)"

subsection \<open>Collaborators and events\<close>

text \<open>
  What the constructor takes from the rest of the program: \<open>assetstore.NewStore\<close>,
  \<open>image.RetrieveRendezvousIP\<close> (the derivation of the rendezvous address, a pair
  (address, error)), the \<open>Name()\<close> of the three assets and the constant
  \<open>client.DefaultBasePath\<close>.
\<close>

record deps =
  NewStore :: "string \<Rightarrow> error + Store"
  RetrieveRendezvousIP :: "agent_Config option \<Rightarrow> NMStateConfig option list \<Rightarrow> string \<times> error option"
  AgentConfig_Name :: string
  AgentManifests_Name :: string
  InstallConfig_Name :: string
  DefaultBasePath :: string

text \<open>
  The REST API behind the client: the answer of each of the three requests this file
  issues, \<open>Inl\<close> the error of the call and \<open>Inr\<close> the payload of the response.
  \<open>models.EventList\<close> is a slice that the source returns as \<open>nil\<close> on error, so it
  is an \<open>option\<close> (\<open>None\<close> the nil slice, \<open>Some []\<close> an empty list).
  \<open>models.Cluster\<close> and \<open>models.InfraEnv\<close> are declared by the assisted service,
  outside these sources: an entry of a listing is the object it stands for, with the one
  field this file reads, \<open>ID\<close>, a \<open>*strfmt.UUID\<close>. The listings are only measured
  (\<open>len\<close>) and read at index 0, so a nil slice is the empty list.
\<close>

record Cluster =
  ID :: "UUID option"

record InfraEnv =
  ID :: "UUID option"

datatype Event = Event string

type_synonym EventList = "Event list option"

record V2ListEventsParams =
  InfraEnvID :: "UUID option"

record remote =
  ListInfraEnvs :: "AssistedInstall \<Rightarrow> Context \<Rightarrow> error + InfraEnv list"
  V2ListClusters :: "AssistedInstall \<Rightarrow> Context \<Rightarrow> error + Cluster list"
  V2ListEvents :: "AssistedInstall \<Rightarrow> Context \<Rightarrow> V2ListEventsParams \<Rightarrow> error + EventList"

datatype event =
    Ev_NewStore string
  | Ev_Load asset_descriptor
  | Ev_RetrieveRendezvousIP "agent_Config option" "NMStateConfig option list"
  | Ev_ListInfraEnvs AssistedInstall Context
  | Ev_V2ListClusters AssistedInstall Context
  | Ev_V2ListEvents AssistedInstall Context V2ListEventsParams
  | Ev_Log log_entry

subsection \<open>NewNodeZeroRestClient\<close>

text \<open>The debug line of a failed load: \<open>logrus.Debug(errors.Wrapf(err, "failed to load %s", name))\<close>.\<close>

definition load_debug :: "error option \<Rightarrow> string \<Rightarrow> event list" where
  "load_debug err name =
     (case err of
        None \<Rightarrow> []
      | Some e \<Rightarrow> [Ev_Log (Debug_error (errors_Wrap e (''failed to load '' @ name)))])"

text \<open>
  Lines 76 to 98 of the source: the result of the derivation is checked, the SSH key of
  the install config is kept, the URL and the client are built.
\<close>

definition build_client ::
  "deps \<Rightarrow> Context \<Rightarrow> InstallConfig option \<Rightarrow> string \<times> error option
     \<Rightarrow> NodeZeroRestClient option \<times> error option" where
  "build_client d c installConfig r =
     (case r of
        (_, Some rendezvousIPError) \<Rightarrow> (None, Some rendezvousIPError)
      | (RendezvousIP', None) \<Rightarrow>
          (let cfg = \<lparr>URL = Some \<lparr>Scheme = ''http'',
                                   Host = JoinHostPort RendezvousIP' ''8090'',
                                   Path = DefaultBasePath d\<rparr>\<rparr>
           in (Some \<lparr>Client = client_New cfg, ctx = c, config = cfg,
                      NodeZeroIP = RendezvousIP',
                      NodeSSHKey = (case installConfig of
                                      None \<Rightarrow> []
                                    | Some ic \<Rightarrow> [SSHKey (InstallConfig.Config ic)])\<rparr>,
               None)))"

definition NewNodeZeroRestClient ::
  "deps \<Rightarrow> Context \<Rightarrow> string \<Rightarrow> (NodeZeroRestClient option \<times> error option) \<times> event list" where
  "NewNodeZeroRestClient d c assetDir =
     (case NewStore d assetDir of
        Inl err \<Rightarrow>
          ((None, Some (errors_Wrap err ''failed to create asset store'')),
           [Ev_NewStore assetDir])
      | Inr assetStore \<Rightarrow>
          (let (agentConfig, agentConfigError) = Load_AgentConfig assetStore;
               (agentManifests, manifestError) = Load_AgentManifests assetStore;
               (installConfig, installConfigError) = Load_InstallConfig assetStore;
               loaded =
                 [Ev_NewStore assetDir, Ev_Load AgentConfigAsset,
                  Ev_Load AgentManifestsAsset, Ev_Load InstallConfigAsset]
                 @ load_debug agentConfigError (AgentConfig_Name d)
                 @ load_debug manifestError (AgentManifests_Name d)
                 @ load_debug installConfigError (InstallConfig_Name d)
           in if agentConfigError \<noteq> None \<or> manifestError \<noteq> None \<or> installConfigError \<noteq> None
              then ((None, Some (errors_New
                       ''failed to load AgentConfig, NMStateConfig, or InstallConfig'')),
                    loaded)
              else
                (case (agentConfig, agentManifests) of
                   (Some ac, Some am) \<Rightarrow>
                     (build_client d c installConfig
                        (RetrieveRendezvousIP d (AgentConfig.Config ac) (NMStateConfigs am)),
                      loaded @ [Ev_RetrieveRendezvousIP (AgentConfig.Config ac) (NMStateConfigs am)])
                 | (None, Some am) \<Rightarrow>
                     (build_client d c installConfig
                        (RetrieveRendezvousIP d (Some agent_Config_zero) (NMStateConfigs am)),
                      loaded @ [Ev_RetrieveRendezvousIP (Some agent_Config_zero) (NMStateConfigs am)])
                 | (Some ac, None) \<Rightarrow>
                     (build_client d c installConfig
                        (RetrieveRendezvousIP d (AgentConfig.Config ac) []),
                      loaded @ [Ev_RetrieveRendezvousIP (AgentConfig.Config ac) []])
                 | (None, None) \<Rightarrow>
                     ((None, Some (errors_New ''both AgentConfig and NMStateConfig are empty'')),
                      loaded))))"

subsection \<open>The operations of the client\<close>

text \<open>
  Each operation has a pointer receiver; it returns its result, the client as the call
  leaves it, and the events of the call.
\<close>

definition IsRestAPILive ::
  "remote \<Rightarrow> NodeZeroRestClient \<Rightarrow> bool \<times> NodeZeroRestClient \<times> event list" where
  "IsRestAPILive api rest =
     (case ListInfraEnvs api (Client rest) (ctx rest) of
        Inl err \<Rightarrow> (False, rest, [Ev_ListInfraEnvs (Client rest) (ctx rest)])
      | Inr _ \<Rightarrow> (True, rest, [Ev_ListInfraEnvs (Client rest) (ctx rest)]))"

definition GetRestAPIServiceBaseURL ::
  "NodeZeroRestClient \<Rightarrow> url_URL option \<times> NodeZeroRestClient \<times> event list" where
  "GetRestAPIServiceBaseURL rest = (URL (config rest), rest, [])"

definition GetInfraEnvEvents ::
  "remote \<Rightarrow> NodeZeroRestClient \<Rightarrow> UUID option
     \<Rightarrow> (EventList \<times> error option) \<times> NodeZeroRestClient \<times> event list" where
  "GetInfraEnvEvents api rest infraEnvID =
     (let listEventsParams = \<lparr>InfraEnvID = infraEnvID\<rparr>;
          called = [Ev_V2ListEvents (Client rest) (ctx rest) listEventsParams]
      in case V2ListEvents api (Client rest) (ctx rest) listEventsParams of
           Inl err \<Rightarrow> ((None, Some err), rest, called)
         | Inr payload \<Rightarrow> ((payload, None), rest, called))"

definition getClusterID ::
  "remote \<Rightarrow> NodeZeroRestClient
     \<Rightarrow> (UUID option \<times> error option) \<times> NodeZeroRestClient \<times> event list" where
  "getClusterID api rest =
     (let called = [Ev_V2ListClusters (Client rest) (ctx rest)]
      in case V2ListClusters api (Client rest) (ctx rest) of
           Inl err \<Rightarrow> ((None, Some err), rest, called)
         | Inr clusterList \<Rightarrow>
             (if length clusterList = 1
              then ((Cluster.ID (clusterList ! 0), None), rest, called)
              else if length clusterList = 0
              then ((None, None), rest,
                    called @ [Ev_Log (Debug ''cluster is not registered in rest API'')])
              else ((None, None), rest,
                    called @ [Ev_Log (Infof ''found too many clusters. number of clusters found: %d''
                                        (length clusterList))])))"

definition getClusterInfraEnvID ::
  "remote \<Rightarrow> NodeZeroRestClient
     \<Rightarrow> (UUID option \<times> error option) \<times> NodeZeroRestClient \<times> event list" where
  "getClusterInfraEnvID api rest =
     (let called = [Ev_ListInfraEnvs (Client rest) (ctx rest)]
      in case ListInfraEnvs api (Client rest) (ctx rest) of
           Inl err \<Rightarrow> ((None, Some err), rest, called)
         | Inr infraEnvList \<Rightarrow>
             (if length infraEnvList = 1
              then ((InfraEnv.ID (infraEnvList ! 0), None), rest, called)
              else if length infraEnvList = 0
              then ((None, None), rest,
                    called @ [Ev_Log (Debug ''infraenv is not registered in rest API'')])
              else ((None, None), rest,
                    called @ [Ev_Log (Infof ''found too many infraenvs. number of infraenvs found: %d''
                                        (length infraEnvList))])))"

subsection \<open>Reading the events of a call\<close>

text \<open>The invocations of \<open>image.RetrieveRendezvousIP\<close> among the events, with their arguments.\<close>

fun retrieve_calls :: "event list \<Rightarrow> (agent_Config option \<times> NMStateConfig option list) list" where
  "retrieve_calls [] = []"
| "retrieve_calls (Ev_RetrieveRendezvousIP cfg nms # es) = (cfg, nms) # retrieve_calls es"
| "retrieve_calls (_ # es) = retrieve_calls es"

text \<open>The loads of the asset store among the events.\<close>

fun load_calls :: "event list \<Rightarrow> asset_descriptor list" where
  "load_calls [] = []"
| "load_calls (Ev_Load a # es) = a # load_calls es"
| "load_calls (_ # es) = load_calls es"

text \<open>The requests sent to the REST API among the events.\<close>

fun is_request :: "event \<Rightarrow> bool" where
  "is_request (Ev_ListInfraEnvs _ _) = True"
| "is_request (Ev_V2ListClusters _ _) = True"
| "is_request (Ev_V2ListEvents _ _ _) = True"
| "is_request _ = False"

definition requests :: "event list \<Rightarrow> event list" where
  "requests es = filter is_request es"

text \<open>The log entries among the events.\<close>

fun log_entries :: "event list \<Rightarrow> log_entry list" where
  "log_entries [] = []"
| "log_entries (Ev_Log l # es) = l # log_entries es"
| "log_entries (_ # es) = log_entries es"

text \<open>The entries of \<open>logrus.Infof\<close> among the log entries.\<close>

fun is_info :: "log_entry \<Rightarrow> bool" where
  "is_info (Infof _ _) = True"
| "is_info _ = False"

subsection \<open>A client in use\<close>

text \<open>
  The calls a caller can make on a client, and the client as a call leaves it: the
  second component of what the operation returns.
\<close>

datatype call =
    Call_IsRestAPILive
  | Call_GetRestAPIServiceBaseURL
  | Call_GetInfraEnvEvents "UUID option"
  | Call_getClusterID
  | Call_getClusterInfraEnvID

fun client_after :: "remote \<Rightarrow> call \<Rightarrow> NodeZeroRestClient \<Rightarrow> NodeZeroRestClient" where
  "client_after api Call_IsRestAPILive rest = fst (snd (IsRestAPILive api rest))"
| "client_after api Call_GetRestAPIServiceBaseURL rest = fst (snd (GetRestAPIServiceBaseURL rest))"
| "client_after api (Call_GetInfraEnvEvents i) rest = fst (snd (GetInfraEnvEvents api rest i))"
| "client_after api Call_getClusterID rest = fst (snd (getClusterID api rest))"
| "client_after api Call_getClusterInfraEnvID rest = fst (snd (getClusterInfraEnvID api rest))"

text \<open>
  A sequence of calls, each against the REST API as it answers at that moment (the
  service comes up, fails and recovers between calls).
\<close>

fun client_after_calls :: "(remote \<times> call) list \<Rightarrow> NodeZeroRestClient \<Rightarrow> NodeZeroRestClient" where
  "client_after_calls [] rest = rest"
| "client_after_calls ((api, k) # ks) rest = client_after_calls ks (client_after api k rest)"

subsection \<open>The precedence of the specification\<close>

text \<open>
  The policy of the rendezvous resolver as the specification words it, on the two
  optional inputs: both available, derive from both; only host declarations, derive with
  an empty agent config; only agent config, derive with an empty set of host
  declarations; neither, no derivation. The result is the pair of arguments handed to
  the derivation.
\<close>

definition spec_precedence ::
  "AgentConfig option \<Rightarrow> AgentManifests option
     \<Rightarrow> (agent_Config option \<times> NMStateConfig option list) option" where
  "spec_precedence agentConfig agentManifests =
     (case agentManifests of
        Some am \<Rightarrow>
          (case agentConfig of
             Some ac \<Rightarrow> Some (AgentConfig.Config ac, NMStateConfigs am)
           | None \<Rightarrow> Some (Some agent_Config_zero, NMStateConfigs am))
      | None \<Rightarrow>
          (case agentConfig of
             Some ac \<Rightarrow> Some (AgentConfig.Config ac, [])
           | None \<Rightarrow> None))"

subsection \<open>Stubs for concrete runs\<close>

text \<open>
  A REST API that answers every request of a kind with a fixed answer, an asset store
  with fixed loads, and a derivation that takes the pinned address of the agent config
  or, without one, the address 10.0.0.5 when host declarations exist.
\<close>

definition stub_remote ::
  "error + InfraEnv list \<Rightarrow> error + Cluster list \<Rightarrow> error + EventList \<Rightarrow> remote" where
  "stub_remote infraEnvs clusters evs =
     \<lparr>ListInfraEnvs = (\<lambda>_ _. infraEnvs), V2ListClusters = (\<lambda>_ _. clusters),
      V2ListEvents = (\<lambda>_ _ _. evs)\<rparr>"

definition stub_RetrieveRendezvousIP ::
  "agent_Config option \<Rightarrow> NMStateConfig option list \<Rightarrow> string \<times> error option" where
  "stub_RetrieveRendezvousIP cfg nms =
     (case cfg of
        None \<Rightarrow> ('''', Some (foreign ''missing agent config''))
      | Some a \<Rightarrow>
          if RendezvousIP a \<noteq> '''' then (RendezvousIP a, None)
          else if nms \<noteq> [] then (''10.0.0.5'', None)
          else ('''', Some (foreign ''missing rendezvousIP'')))"

definition stub_AgentConfig :: AgentConfig where
  "stub_AgentConfig = \<lparr>AgentConfig.Config = Some \<lparr>RendezvousIP = ''192.168.111.80''\<rparr>\<rparr>"

definition stub_AgentManifests :: AgentManifests where
  "stub_AgentManifests =
     \<lparr>NMStateConfigs = [Some (NMStateConfig ''master-0''), Some (NMStateConfig ''master-1'')]\<rparr>"

definition stub_InstallConfig :: InstallConfig where
  "stub_InstallConfig = \<lparr>InstallConfig.Config = \<lparr>SSHKey = ''ssh-ed25519 AAAA''\<rparr>\<rparr>"

definition stub_Store ::
  "AgentConfig option \<times> error option \<Rightarrow> AgentManifests option \<times> error option
     \<Rightarrow> InstallConfig option \<times> error option \<Rightarrow> Store" where
  "stub_Store ac am ic =
     \<lparr>Load_AgentConfig = ac, Load_AgentManifests = am, Load_InstallConfig = ic\<rparr>"

definition stub_deps :: "error + Store \<Rightarrow> deps" where
  "stub_deps st =
     \<lparr>NewStore = (\<lambda>_. st), RetrieveRendezvousIP = stub_RetrieveRendezvousIP,
      AgentConfig_Name = ''Agent Config'', AgentManifests_Name = ''Agent Manifests'',
      InstallConfig_Name = ''Install Config'', DefaultBasePath = ''/api/assisted-install''\<rparr>"

definition stub_client :: NodeZeroRestClient where
  "stub_client =
     (let cfg = \<lparr>URL = Some \<lparr>Scheme = ''http'', Host = ''10.0.0.5:8090'',
                              Path = ''/api/assisted-install''\<rparr>\<rparr>
      in \<lparr>Client = client_New cfg, ctx = Context 0, config = cfg,
          NodeZeroIP = ''10.0.0.5'', NodeSSHKey = []\<rparr>)"

definition stub_client_pinned :: NodeZeroRestClient where
  "stub_client_pinned =
     (let cfg = \<lparr>URL = Some \<lparr>Scheme = ''http'', Host = ''192.168.111.80:8090'',
                              Path = ''/api/assisted-install''\<rparr>\<rparr>
      in \<lparr>Client = client_New cfg, ctx = Context 0, config = cfg,
          NodeZeroIP = ''192.168.111.80'', NodeSSHKey = [''ssh-ed25519 AAAA'']\<rparr>)"

section \<open>Properties\<close>

subsection \<open>Events and the stages of the constructor\<close>

lemma retrieve_calls_append: "retrieve_calls (xs @ ys) = retrieve_calls xs @ retrieve_calls ys"
  by (induction xs rule: retrieve_calls.induct) simp_all

lemma load_calls_append: "load_calls (xs @ ys) = load_calls xs @ load_calls ys"
  by (induction xs rule: load_calls.induct) simp_all

lemma retrieve_calls_load_debug: "retrieve_calls (load_debug e n) = []"
  by (cases e) (simp_all add: load_debug_def)

lemma load_calls_load_debug: "load_calls (load_debug e n) = []"
  by (cases e) (simp_all add: load_debug_def)

lemma New_store_error:
  assumes "NewStore d assetDir = Inl err"
  shows "NewNodeZeroRestClient d c assetDir =
           ((None, Some (errors_Wrap err ''failed to create asset store'')), [Ev_NewStore assetDir])"
  using assms by (simp add: NewNodeZeroRestClient_def)

lemma New_loads:
  assumes "NewStore d assetDir = Inr st"
  shows "load_calls (snd (NewNodeZeroRestClient d c assetDir)) =
           [AgentConfigAsset, AgentManifestsAsset, InstallConfigAsset]"
  using assms
  by (simp add: NewNodeZeroRestClient_def Let_def load_calls_append load_calls_load_debug
           split: prod.splits option.splits)

lemma New_load_error:
  assumes "NewStore d assetDir = Inr st"
    and "snd (Load_AgentConfig st) \<noteq> None \<or> snd (Load_AgentManifests st) \<noteq> None
           \<or> snd (Load_InstallConfig st) \<noteq> None"
  shows "fst (NewNodeZeroRestClient d c assetDir) =
           (None, Some (errors_New ''failed to load AgentConfig, NMStateConfig, or InstallConfig''))"
    and "retrieve_calls (snd (NewNodeZeroRestClient d c assetDir)) = []"
  using assms
  by (auto simp add: NewNodeZeroRestClient_def Let_def retrieve_calls_append retrieve_calls_load_debug
           split: prod.splits)

lemma New_loaded:
  assumes "NewStore d assetDir = Inr st"
    and "snd (Load_AgentConfig st) = None" and "snd (Load_AgentManifests st) = None"
    and "snd (Load_InstallConfig st) = None"
  shows "fst (NewNodeZeroRestClient d c assetDir) =
           (case spec_precedence (fst (Load_AgentConfig st)) (fst (Load_AgentManifests st)) of
              None \<Rightarrow> (None, Some (errors_New ''both AgentConfig and NMStateConfig are empty''))
            | Some (cfg, nms) \<Rightarrow>
                build_client d c (fst (Load_InstallConfig st)) (RetrieveRendezvousIP d cfg nms))"
    and "retrieve_calls (snd (NewNodeZeroRestClient d c assetDir)) =
           (case spec_precedence (fst (Load_AgentConfig st)) (fst (Load_AgentManifests st)) of
              None \<Rightarrow> [] | Some a \<Rightarrow> [a])"
  using assms
  by (auto simp add: NewNodeZeroRestClient_def Let_def spec_precedence_def
                retrieve_calls_append retrieve_calls_load_debug load_debug_def
           split: prod.splits option.splits)

lemma build_client_cases:
  "build_client d c ic (A, None) =
     (Some \<lparr>Client = client_New \<lparr>URL = Some \<lparr>Scheme = ''http'', Host = JoinHostPort A ''8090'',
                                              Path = DefaultBasePath d\<rparr>\<rparr>,
            ctx = c,
            config = \<lparr>URL = Some \<lparr>Scheme = ''http'', Host = JoinHostPort A ''8090'',
                                  Path = DefaultBasePath d\<rparr>\<rparr>,
            NodeZeroIP = A,
            NodeSSHKey = (case ic of None \<Rightarrow> [] | Some i \<Rightarrow> [SSHKey (InstallConfig.Config i)])\<rparr>,
      None)"
  "build_client d c ic (A, Some e) = (None, Some e)"
  by (simp_all add: build_client_def Let_def)

lemma New_success_loaded:
  assumes "fst (NewNodeZeroRestClient d c assetDir) = (Some rest, None)"
  shows "\<exists>st. NewStore d assetDir = Inr st \<and> snd (Load_AgentConfig st) = None
           \<and> snd (Load_AgentManifests st) = None \<and> snd (Load_InstallConfig st) = None"
proof (cases "NewStore d assetDir")
  case (Inl err)
  with assms show ?thesis by (simp add: New_store_error)
next
  case (Inr st)
  have "\<not> (snd (Load_AgentConfig st) \<noteq> None \<or> snd (Load_AgentManifests st) \<noteq> None
           \<or> snd (Load_InstallConfig st) \<noteq> None)"
  proof
    assume "snd (Load_AgentConfig st) \<noteq> None \<or> snd (Load_AgentManifests st) \<noteq> None
           \<or> snd (Load_InstallConfig st) \<noteq> None"
    from New_load_error(1)[OF Inr this, of c] assms show False by simp
  qed
  with Inr show ?thesis by simp
qed

lemma client_after_same: "client_after api k rest = rest"
  by (cases k)
     (simp_all add: IsRestAPILive_def GetRestAPIServiceBaseURL_def GetInfraEnvEvents_def
        getClusterID_def getClusterInfraEnvID_def Let_def split: sum.splits)

lemma client_after_calls_same: "client_after_calls ks rest = rest"
  by (induction ks arbitrary: rest) (auto simp: client_after_same)

lemma not_one_not_empty: "length xs \<noteq> Suc 0 \<Longrightarrow> xs \<noteq> [] \<Longrightarrow> 2 \<le> length xs"
  by (cases xs; cases "tl xs") auto

lemma spec_precedence_None:
  "(spec_precedence ac am = None) = (ac = None \<and> am = None)"
  by (simp add: spec_precedence_def split: option.splits)

lemma build_client_result:
  "RetrieveRendezvousIP d cfg nms = (A, None) \<Longrightarrow>
     \<exists>rest. build_client d c ic (RetrieveRendezvousIP d cfg nms) = (Some rest, None)
        \<and> NodeZeroIP rest = A"
  "RetrieveRendezvousIP d cfg nms = (A, Some e) \<Longrightarrow>
     build_client d c ic (RetrieveRendezvousIP d cfg nms) = (None, Some e)"
  by (simp_all add: build_client_cases)

subsection \<open>The identity lookups\<close>

text \<open>
  Claim C1. Both identity lookups, \<open>getClusterID\<close> over the cluster listing and
  \<open>getClusterInfraEnvID\<close> over the infra-environment listing, follow the same policy on
  every listing the service returns: exactly one entry gives that entry's identifier and
  no error, zero entries give (nil, nil), two or more entries give (nil, nil). The
  result of each lookup is a function of its own listing only, whatever the other
  listing answers.
\<close>

theorem identity_lookups_one_zero_many:
  "(V2ListClusters api (Client rest) (ctx rest) = Inr clusterList \<longrightarrow>
      (length clusterList = 1 \<longrightarrow>
         fst (getClusterID api rest) = (Cluster.ID (clusterList ! 0), None)) \<and>
      (length clusterList = 0 \<longrightarrow> fst (getClusterID api rest) = (None, None)) \<and>
      (2 \<le> length clusterList \<longrightarrow> fst (getClusterID api rest) = (None, None)))
   \<and> (ListInfraEnvs api (Client rest) (ctx rest) = Inr infraEnvList \<longrightarrow>
      (length infraEnvList = 1 \<longrightarrow>
         fst (getClusterInfraEnvID api rest) = (InfraEnv.ID (infraEnvList ! 0), None)) \<and>
      (length infraEnvList = 0 \<longrightarrow> fst (getClusterInfraEnvID api rest) = (None, None)) \<and>
      (2 \<le> length infraEnvList \<longrightarrow> fst (getClusterInfraEnvID api rest) = (None, None)))
   \<and> (\<forall>api'. V2ListClusters api' = V2ListClusters api \<longrightarrow>
          fst (getClusterID api' rest) = fst (getClusterID api rest))
   \<and> (\<forall>api'. ListInfraEnvs api' = ListInfraEnvs api \<longrightarrow>
          fst (getClusterInfraEnvID api' rest) = fst (getClusterInfraEnvID api rest))"
  by (simp add: getClusterID_def getClusterInfraEnvID_def Let_def)

text \<open>
  The lookups run on a stub service: one cluster and no infra-environment, then two
  clusters and one infra-environment.
\<close>

theorem identity_lookups_one_zero_many_witness:
  "fst (getClusterID
          (stub_remote (Inr []) (Inr [\<lparr>Cluster.ID = Some ''c-1''\<rparr>]) (Inr None)) stub_client)
     = (Some ''c-1'', None)
   \<and> fst (getClusterInfraEnvID
          (stub_remote (Inr []) (Inr [\<lparr>Cluster.ID = Some ''c-1''\<rparr>]) (Inr None)) stub_client)
     = (None, None)
   \<and> fst (getClusterID
          (stub_remote (Inr [\<lparr>InfraEnv.ID = Some ''ie-1''\<rparr>])
             (Inr [\<lparr>Cluster.ID = Some ''c-1''\<rparr>, \<lparr>Cluster.ID = Some ''c-2''\<rparr>]) (Inr None))
          stub_client)
     = (None, None)
   \<and> fst (getClusterInfraEnvID
          (stub_remote (Inr [\<lparr>InfraEnv.ID = Some ''ie-1''\<rparr>])
             (Inr [\<lparr>Cluster.ID = Some ''c-1''\<rparr>, \<lparr>Cluster.ID = Some ''c-2''\<rparr>]) (Inr None))
          stub_client)
     = (Some ''ie-1'', None)"
  using
    identity_lookups_one_zero_many
      [of "stub_remote (Inr []) (Inr [\<lparr>Cluster.ID = Some ''c-1''\<rparr>]) (Inr None)" stub_client
          "[\<lparr>Cluster.ID = Some ''c-1''\<rparr>]" "[]"]
    identity_lookups_one_zero_many
      [of "stub_remote (Inr [\<lparr>InfraEnv.ID = Some ''ie-1''\<rparr>])
             (Inr [\<lparr>Cluster.ID = Some ''c-1''\<rparr>, \<lparr>Cluster.ID = Some ''c-2''\<rparr>]) (Inr None)"
          stub_client
          "[\<lparr>Cluster.ID = Some ''c-1''\<rparr>, \<lparr>Cluster.ID = Some ''c-2''\<rparr>]"
          "[\<lparr>InfraEnv.ID = Some ''ie-1''\<rparr>]"]
  by (simp add: stub_remote_def)

subsection \<open>The liveness probe\<close>

text \<open>
  Claim C4. \<open>IsRestAPILive\<close> returns a boolean for every outcome of the
  infra-environment listing and no error value: true exactly when the listing call
  returns a response, false for every error of the call. It sends the listing request
  once and does nothing else.
\<close>

theorem IsRestAPILive_boolean_single_request:
  "fst (IsRestAPILive api rest) =
     (\<exists>payload. ListInfraEnvs api (Client rest) (ctx rest) = Inr payload)
   \<and> (\<forall>err. ListInfraEnvs api (Client rest) (ctx rest) = Inl err \<longrightarrow>
          \<not> fst (IsRestAPILive api rest))
   \<and> requests (snd (snd (IsRestAPILive api rest))) = [Ev_ListInfraEnvs (Client rest) (ctx rest)]
   \<and> length (snd (snd (IsRestAPILive api rest))) = 1"
  by (simp add: IsRestAPILive_def requests_def split: sum.splits)

text \<open>The probe against a service that refuses the connection, and against one that lists.\<close>

theorem IsRestAPILive_boolean_single_request_witness:
  "\<not> fst (IsRestAPILive (stub_remote (Inl (foreign ''connection refused'')) (Inr []) (Inr None))
            stub_client)
   \<and> fst (IsRestAPILive (stub_remote (Inr []) (Inl (foreign ''timeout'')) (Inr None)) stub_client)"
  using
    IsRestAPILive_boolean_single_request
      [of "stub_remote (Inl (foreign ''connection refused'')) (Inr []) (Inr None)" stub_client]
    IsRestAPILive_boolean_single_request
      [of "stub_remote (Inr []) (Inl (foreign ''timeout'')) (Inr None)" stub_client]
  by (simp add: stub_remote_def)

subsection \<open>Event retrieval\<close>

text \<open>
  Claim C6. For every infra-environment identifier, \<open>GetInfraEnvEvents\<close> returns the
  error of the event-list call as it is, with a nil list, when the call fails, and the
  payload of the response as it is, empty or not, with a nil error, when it succeeds.
\<close>

theorem GetInfraEnvEvents_error_and_payload_verbatim:
  "(V2ListEvents api (Client rest) (ctx rest) \<lparr>InfraEnvID = infraEnvID\<rparr> = Inl err \<longrightarrow>
      fst (GetInfraEnvEvents api rest infraEnvID) = (None, Some err))
   \<and> (V2ListEvents api (Client rest) (ctx rest) \<lparr>InfraEnvID = infraEnvID\<rparr> = Inr payload \<longrightarrow>
      fst (GetInfraEnvEvents api rest infraEnvID) = (payload, None))"
  by (simp add: GetInfraEnvEvents_def Let_def)

text \<open>A failing call, an empty event list and a list of two events.\<close>

theorem GetInfraEnvEvents_error_and_payload_verbatim_witness:
  "fst (GetInfraEnvEvents (stub_remote (Inr []) (Inr []) (Inl (foreign ''connection reset'')))
          stub_client (Some ''ie-1''))
     = (None, Some (foreign ''connection reset''))
   \<and> fst (GetInfraEnvEvents (stub_remote (Inr []) (Inr []) (Inr (Some [])))
          stub_client (Some ''ie-1''))
     = (Some [], None)
   \<and> fst (GetInfraEnvEvents
          (stub_remote (Inr []) (Inr []) (Inr (Some [Event ''registered'', Event ''installing''])))
          stub_client None)
     = (Some [Event ''registered'', Event ''installing''], None)"
  using
    GetInfraEnvEvents_error_and_payload_verbatim
      [of "stub_remote (Inr []) (Inr []) (Inl (foreign ''connection reset''))" stub_client
          "Some ''ie-1''" "foreign ''connection reset''"]
    GetInfraEnvEvents_error_and_payload_verbatim
      [of "stub_remote (Inr []) (Inr []) (Inr (Some []))" stub_client
          "Some ''ie-1''" _ "Some []"]
    GetInfraEnvEvents_error_and_payload_verbatim
      [of "stub_remote (Inr []) (Inr []) (Inr (Some [Event ''registered'', Event ''installing'']))"
          stub_client None _ "Some [Event ''registered'', Event ''installing'']"]
  by (simp add: stub_remote_def)

subsection \<open>The log entries of the cluster lookup\<close>

text \<open>
  On an empty cluster listing \<open>getClusterID\<close> returns (nil, nil) and writes one log
  entry, at debug level.
\<close>

theorem getClusterID_zero_entries_debug_line:
  "V2ListClusters (stub_remote (Inr []) (Inr []) (Inr None)) (Client stub_client) (ctx stub_client)
     = Inr []
   \<and> fst (getClusterID (stub_remote (Inr []) (Inr []) (Inr None)) stub_client) = (None, None)
   \<and> log_entries (snd (snd (getClusterID (stub_remote (Inr []) (Inr []) (Inr None)) stub_client)))
     = [Debug ''cluster is not registered in rest API'']"
  by (simp add: getClusterID_def stub_remote_def Let_def)

text \<open>
  Claim C8, as the code has it. \<open>getClusterID\<close> writes a line with \<open>logrus.Infof\<close>
  only when the listing has two or more entries: one line, which cites the count. On a
  listing with zero entries it writes one line with \<open>logrus.Debug\<close>, "cluster is not
  registered in rest API". On a listing with exactly one entry, and when the listing
  call fails, it writes nothing.
\<close>

theorem getClusterID_log_entries:
  "(V2ListClusters api (Client rest) (ctx rest) = Inr clusterList \<longrightarrow>
      log_entries (snd (snd (getClusterID api rest))) =
        (if 2 \<le> length clusterList
         then [Infof ''found too many clusters. number of clusters found: %d'' (length clusterList)]
         else if length clusterList = 0
         then [Debug ''cluster is not registered in rest API'']
         else [])
      \<and> (filter is_info (log_entries (snd (snd (getClusterID api rest)))) \<noteq> [])
          = (2 \<le> length clusterList))
   \<and> (V2ListClusters api (Client rest) (ctx rest) = Inl err \<longrightarrow>
      log_entries (snd (snd (getClusterID api rest))) = [])"
  by (auto simp add: getClusterID_def Let_def dest: not_one_not_empty)

text \<open>The log of the lookup on two clusters, on one cluster and on a failed listing.\<close>

theorem getClusterID_log_entries_witness:
  "log_entries (snd (snd (getClusterID
      (stub_remote (Inr [])
         (Inr [\<lparr>Cluster.ID = Some ''c-1''\<rparr>, \<lparr>Cluster.ID = Some ''c-2''\<rparr>]) (Inr None))
      stub_client)))
     = [Infof ''found too many clusters. number of clusters found: %d'' 2]
   \<and> log_entries (snd (snd (getClusterID
      (stub_remote (Inr []) (Inr [\<lparr>Cluster.ID = Some ''c-1''\<rparr>]) (Inr None)) stub_client)))
     = []
   \<and> log_entries (snd (snd (getClusterID
      (stub_remote (Inr []) (Inl (foreign ''timeout'')) (Inr None)) stub_client)))
     = []"
  using
    getClusterID_log_entries
      [of "stub_remote (Inr [])
             (Inr [\<lparr>Cluster.ID = Some ''c-1''\<rparr>, \<lparr>Cluster.ID = Some ''c-2''\<rparr>]) (Inr None)"
          stub_client "[\<lparr>Cluster.ID = Some ''c-1''\<rparr>, \<lparr>Cluster.ID = Some ''c-2''\<rparr>]"]
    getClusterID_log_entries
      [of "stub_remote (Inr []) (Inr [\<lparr>Cluster.ID = Some ''c-1''\<rparr>]) (Inr None)"
          stub_client "[\<lparr>Cluster.ID = Some ''c-1''\<rparr>]"]
    getClusterID_log_entries
      [of "stub_remote (Inr []) (Inl (foreign ''timeout'')) (Inr None)"
          stub_client _ "foreign ''timeout''"]
  by (simp add: stub_remote_def)

subsection \<open>An entry without identifier\<close>

text \<open>
  Claim C10. When the cluster listing (the infra-environment listing) has exactly one
  entry and the \<open>ID\<close> field of that entry is nil, \<open>getClusterID\<close>
  (\<open>getClusterInfraEnvID\<close>) returns (nil, nil): the very result it returns on any
  listing with zero entries or with two or more, so the returned pair does not tell the
  three apart.
\<close>

theorem nil_ID_entry_like_unresolved:
  "(V2ListClusters api (Client rest) (ctx rest) = Inr [c] \<and> Cluster.ID c = None
      \<and> V2ListClusters api' (Client rest) (ctx rest) = Inr clusterList
      \<and> length clusterList \<noteq> 1 \<longrightarrow>
      fst (getClusterID api rest) = (None, None)
      \<and> fst (getClusterID api' rest) = fst (getClusterID api rest))
   \<and> (ListInfraEnvs api (Client rest) (ctx rest) = Inr [e] \<and> InfraEnv.ID e = None
      \<and> ListInfraEnvs api' (Client rest) (ctx rest) = Inr infraEnvList
      \<and> length infraEnvList \<noteq> 1 \<longrightarrow>
      fst (getClusterInfraEnvID api rest) = (None, None)
      \<and> fst (getClusterInfraEnvID api' rest) = fst (getClusterInfraEnvID api rest))"
  by (simp add: getClusterID_def getClusterInfraEnvID_def Let_def)

text \<open>One entry with a nil \<open>ID\<close> against an empty listing, for both lookups.\<close>

theorem nil_ID_entry_like_unresolved_witness:
  "fst (getClusterID
          (stub_remote (Inr [\<lparr>InfraEnv.ID = None\<rparr>]) (Inr [\<lparr>Cluster.ID = None\<rparr>]) (Inr None))
          stub_client) = (None, None)
   \<and> fst (getClusterInfraEnvID
          (stub_remote (Inr [\<lparr>InfraEnv.ID = None\<rparr>]) (Inr [\<lparr>Cluster.ID = None\<rparr>]) (Inr None))
          stub_client) = (None, None)
   \<and> fst (getClusterID (stub_remote (Inr []) (Inr []) (Inr None)) stub_client)
       = fst (getClusterID
          (stub_remote (Inr [\<lparr>InfraEnv.ID = None\<rparr>]) (Inr [\<lparr>Cluster.ID = None\<rparr>]) (Inr None))
          stub_client)
   \<and> fst (getClusterInfraEnvID (stub_remote (Inr []) (Inr []) (Inr None)) stub_client)
       = fst (getClusterInfraEnvID
          (stub_remote (Inr [\<lparr>InfraEnv.ID = None\<rparr>]) (Inr [\<lparr>Cluster.ID = None\<rparr>]) (Inr None))
          stub_client)"
  using
    nil_ID_entry_like_unresolved
      [of "stub_remote (Inr [\<lparr>InfraEnv.ID = None\<rparr>]) (Inr [\<lparr>Cluster.ID = None\<rparr>]) (Inr None)"
          stub_client "\<lparr>Cluster.ID = None\<rparr>"
          "stub_remote (Inr []) (Inr []) (Inr None)" "[]"
          "\<lparr>InfraEnv.ID = None\<rparr>" "[]"]
  by (simp add: stub_remote_def)

subsection \<open>The client is not written by its operations\<close>

text \<open>
  Claim C9. None of \<open>IsRestAPILive\<close>, \<open>GetRestAPIServiceBaseURL\<close>,
  \<open>GetInfraEnvEvents\<close>, \<open>getClusterID\<close> and \<open>getClusterInfraEnvID\<close> changes a field
  of the client (\<open>Client\<close>, \<open>ctx\<close>, \<open>config\<close>, \<open>NodeZeroIP\<close>, \<open>NodeSSHKey\<close>), whatever
  the REST API answers: the client after a call, or after any sequence of calls, is the
  client before it, and every operation then behaves on it as on the client before the
  call.
\<close>

theorem operations_leave_client_unchanged:
  "fst (snd (IsRestAPILive api rest)) = rest
   \<and> fst (snd (GetRestAPIServiceBaseURL rest)) = rest
   \<and> fst (snd (GetInfraEnvEvents api rest infraEnvID)) = rest
   \<and> fst (snd (getClusterID api rest)) = rest
   \<and> fst (snd (getClusterInfraEnvID api rest)) = rest
   \<and> client_after api k rest = rest
   \<and> client_after_calls ks rest = rest
   \<and> IsRestAPILive api' (client_after api k rest) = IsRestAPILive api' rest
   \<and> GetRestAPIServiceBaseURL (client_after api k rest) = GetRestAPIServiceBaseURL rest
   \<and> GetInfraEnvEvents api' (client_after api k rest) i = GetInfraEnvEvents api' rest i
   \<and> getClusterID api' (client_after api k rest) = getClusterID api' rest
   \<and> getClusterInfraEnvID api' (client_after api k rest) = getClusterInfraEnvID api' rest"
proof -
  have "fst (snd (IsRestAPILive api rest)) = rest"
    using client_after_same [of api Call_IsRestAPILive rest] by simp
  moreover have "fst (snd (GetRestAPIServiceBaseURL rest)) = rest"
    using client_after_same [of api Call_GetRestAPIServiceBaseURL rest] by simp
  moreover have "fst (snd (GetInfraEnvEvents api rest infraEnvID)) = rest"
    using client_after_same [of api "Call_GetInfraEnvEvents infraEnvID" rest] by simp
  moreover have "fst (snd (getClusterID api rest)) = rest"
    using client_after_same [of api Call_getClusterID rest] by simp
  moreover have "fst (snd (getClusterInfraEnvID api rest)) = rest"
    using client_after_same [of api Call_getClusterInfraEnvID rest] by simp
  ultimately show ?thesis
    by (simp add: client_after_same client_after_calls_same)
qed

subsection \<open>The precedence of the rendezvous resolution\<close>

text \<open>
  Claim C3. In every construction that succeeds the derivation
  \<open>image.RetrieveRendezvousIP\<close> is invoked exactly once, and its arguments follow the
  precedence of the specification: with agent config and host declarations both present
  it is given both; with only host declarations it is given an empty agent config
  (\<open>agent.Config{}\<close>) and the host declarations; with only the agent config it is given
  the agent config and an empty set of host declarations. The address of the client is
  the one that call returned.
\<close>

theorem rendezvous_precedence:
  "NewStore d assetDir = Inr st
   \<and> fst (NewNodeZeroRestClient d c assetDir) = (Some rest, None) \<longrightarrow>
     (\<forall>ac am. fst (Load_AgentConfig st) = Some ac \<and> fst (Load_AgentManifests st) = Some am \<longrightarrow>
        retrieve_calls (snd (NewNodeZeroRestClient d c assetDir))
          = [(AgentConfig.Config ac, NMStateConfigs am)]
        \<and> RetrieveRendezvousIP d (AgentConfig.Config ac) (NMStateConfigs am)
          = (NodeZeroIP rest, None))
     \<and> (\<forall>am. fst (Load_AgentConfig st) = None \<and> fst (Load_AgentManifests st) = Some am \<longrightarrow>
        retrieve_calls (snd (NewNodeZeroRestClient d c assetDir))
          = [(Some agent_Config_zero, NMStateConfigs am)]
        \<and> RetrieveRendezvousIP d (Some agent_Config_zero) (NMStateConfigs am)
          = (NodeZeroIP rest, None))
     \<and> (\<forall>ac. fst (Load_AgentConfig st) = Some ac \<and> fst (Load_AgentManifests st) = None \<longrightarrow>
        retrieve_calls (snd (NewNodeZeroRestClient d c assetDir))
          = [(AgentConfig.Config ac, [])]
        \<and> RetrieveRendezvousIP d (AgentConfig.Config ac) [] = (NodeZeroIP rest, None))
     \<and> \<not> (fst (Load_AgentConfig st) = None \<and> fst (Load_AgentManifests st) = None)
     \<and> (\<exists>a. spec_precedence (fst (Load_AgentConfig st)) (fst (Load_AgentManifests st)) = Some a
             \<and> retrieve_calls (snd (NewNodeZeroRestClient d c assetDir)) = [a])
     \<and> length (retrieve_calls (snd (NewNodeZeroRestClient d c assetDir))) = 1"
proof (intro impI, elim conjE)
  assume st: "NewStore d assetDir = Inr st"
    and ok: "fst (NewNodeZeroRestClient d c assetDir) = (Some rest, None)"
  from New_success_loaded [OF ok] st
  have ld: "snd (Load_AgentConfig st) = None" "snd (Load_AgentManifests st) = None"
    "snd (Load_InstallConfig st) = None"
    by auto
  note r = New_loaded [OF st ld, of c]
  from ok r(1) obtain cfg nms where
    p: "spec_precedence (fst (Load_AgentConfig st)) (fst (Load_AgentManifests st)) = Some (cfg, nms)"
    and b: "build_client d c (fst (Load_InstallConfig st)) (RetrieveRendezvousIP d cfg nms)
              = (Some rest, None)"
    by (auto split: option.splits)
  from b have ip: "RetrieveRendezvousIP d cfg nms = (NodeZeroIP rest, None)"
    by (cases "RetrieveRendezvousIP d cfg nms")
       (auto simp: build_client_def Let_def split: option.splits)
  from p r(2) have calls: "retrieve_calls (snd (NewNodeZeroRestClient d c assetDir)) = [(cfg, nms)]"
    by simp
  from p ip calls show
    "(\<forall>ac am. fst (Load_AgentConfig st) = Some ac \<and> fst (Load_AgentManifests st) = Some am \<longrightarrow>
        retrieve_calls (snd (NewNodeZeroRestClient d c assetDir))
          = [(AgentConfig.Config ac, NMStateConfigs am)]
        \<and> RetrieveRendezvousIP d (AgentConfig.Config ac) (NMStateConfigs am)
          = (NodeZeroIP rest, None))
     \<and> (\<forall>am. fst (Load_AgentConfig st) = None \<and> fst (Load_AgentManifests st) = Some am \<longrightarrow>
        retrieve_calls (snd (NewNodeZeroRestClient d c assetDir))
          = [(Some agent_Config_zero, NMStateConfigs am)]
        \<and> RetrieveRendezvousIP d (Some agent_Config_zero) (NMStateConfigs am)
          = (NodeZeroIP rest, None))
     \<and> (\<forall>ac. fst (Load_AgentConfig st) = Some ac \<and> fst (Load_AgentManifests st) = None \<longrightarrow>
        retrieve_calls (snd (NewNodeZeroRestClient d c assetDir))
          = [(AgentConfig.Config ac, [])]
        \<and> RetrieveRendezvousIP d (AgentConfig.Config ac) [] = (NodeZeroIP rest, None))
     \<and> \<not> (fst (Load_AgentConfig st) = None \<and> fst (Load_AgentManifests st) = None)
     \<and> (\<exists>a. spec_precedence (fst (Load_AgentConfig st)) (fst (Load_AgentManifests st)) = Some a
             \<and> retrieve_calls (snd (NewNodeZeroRestClient d c assetDir)) = [a])
     \<and> length (retrieve_calls (snd (NewNodeZeroRestClient d c assetDir))) = 1"
    by (auto simp: spec_precedence_def split: option.splits)
qed

text \<open>
  The three successful rows of the table on stub assets: host declarations only, agent
  config only, both.
\<close>

theorem rendezvous_precedence_witness:
  "retrieve_calls (snd (NewNodeZeroRestClient
       (stub_deps (Inr (stub_Store (None, None) (Some stub_AgentManifests, None) (None, None))))
       (Context 0) ''assets''))
     = [(Some agent_Config_zero, NMStateConfigs stub_AgentManifests)]
   \<and> stub_RetrieveRendezvousIP (Some agent_Config_zero) (NMStateConfigs stub_AgentManifests)
     = (''10.0.0.5'', None)
   \<and> retrieve_calls (snd (NewNodeZeroRestClient
       (stub_deps (Inr (stub_Store (Some stub_AgentConfig, None) (None, None)
                          (Some stub_InstallConfig, None))))
       (Context 0) ''assets''))
     = [(AgentConfig.Config stub_AgentConfig, [])]
   \<and> retrieve_calls (snd (NewNodeZeroRestClient
       (stub_deps (Inr (stub_Store (Some stub_AgentConfig, None) (Some stub_AgentManifests, None)
                          (Some stub_InstallConfig, None))))
       (Context 0) ''assets''))
     = [(AgentConfig.Config stub_AgentConfig, NMStateConfigs stub_AgentManifests)]"
  using
    rendezvous_precedence
      [of "stub_deps (Inr (stub_Store (None, None) (Some stub_AgentManifests, None) (None, None)))"
          "''assets''" "stub_Store (None, None) (Some stub_AgentManifests, None) (None, None)"
          "Context 0" stub_client]
    rendezvous_precedence
      [of "stub_deps (Inr (stub_Store (Some stub_AgentConfig, None) (None, None)
                             (Some stub_InstallConfig, None)))"
          "''assets''"
          "stub_Store (Some stub_AgentConfig, None) (None, None) (Some stub_InstallConfig, None)"
          "Context 0" stub_client_pinned]
    rendezvous_precedence
      [of "stub_deps (Inr (stub_Store (Some stub_AgentConfig, None)
                             (Some stub_AgentManifests, None) (Some stub_InstallConfig, None)))"
          "''assets''"
          "stub_Store (Some stub_AgentConfig, None) (Some stub_AgentManifests, None)
             (Some stub_InstallConfig, None)"
          "Context 0" stub_client_pinned]
  by (simp add: NewNodeZeroRestClient_def build_client_def load_debug_def stub_deps_def
        stub_Store_def stub_client_def stub_client_pinned_def stub_RetrieveRendezvousIP_def
        stub_AgentManifests_def stub_AgentConfig_def stub_InstallConfig_def
        agent_Config_zero_def JoinHostPort_def Let_def)

subsection \<open>The endpoint of the client\<close>

text \<open>
  Claim C7. When the construction succeeds with the resolved address A (the address the
  one derivation call returned, kept in \<open>NodeZeroIP\<close>), the endpoint of the client is
  the URL with scheme "http", host \<open>net.JoinHostPort(A, "8090")\<close> (A, a colon and the
  port 8090; A in square brackets when it is an IPv6 literal) and path
  \<open>client.DefaultBasePath\<close>; the API client is bound to that configuration. After any
  sequence of calls on the client \<open>GetRestAPIServiceBaseURL\<close> returns this same URL: it
  reads the stored field, leaves the client as it is, and causes no event (no request,
  no log entry).
\<close>

theorem endpoint_fixed_at_construction:
  "fst (NewNodeZeroRestClient d c assetDir) = (Some rest, None) \<longrightarrow>
     (\<exists>cfg nms. retrieve_calls (snd (NewNodeZeroRestClient d c assetDir)) = [(cfg, nms)]
          \<and> RetrieveRendezvousIP d cfg nms = (NodeZeroIP rest, None))
     \<and> config rest = \<lparr>URL = Some \<lparr>Scheme = ''http'',
                                  Host = JoinHostPort (NodeZeroIP rest) ''8090'',
                                  Path = DefaultBasePath d\<rparr>\<rparr>
     \<and> (CHR '':'' \<notin> set (NodeZeroIP rest) \<longrightarrow>
          URL (config rest) = Some \<lparr>Scheme = ''http'', Host = NodeZeroIP rest @ '':8090'',
                                    Path = DefaultBasePath d\<rparr>)
     \<and> Client rest = client_New (config rest)
     \<and> (\<forall>ks. GetRestAPIServiceBaseURL (client_after_calls ks rest)
              = (Some \<lparr>Scheme = ''http'', Host = JoinHostPort (NodeZeroIP rest) ''8090'',
                       Path = DefaultBasePath d\<rparr>, rest, []))"
proof
  assume ok: "fst (NewNodeZeroRestClient d c assetDir) = (Some rest, None)"
  from New_success_loaded [OF ok] obtain st where st: "NewStore d assetDir = Inr st"
    and ld: "snd (Load_AgentConfig st) = None" "snd (Load_AgentManifests st) = None"
      "snd (Load_InstallConfig st) = None"
    by blast
  note r = New_loaded [OF st ld, of c]
  from ok r(1) obtain cfg nms where
    p: "spec_precedence (fst (Load_AgentConfig st)) (fst (Load_AgentManifests st)) = Some (cfg, nms)"
    and b: "build_client d c (fst (Load_InstallConfig st)) (RetrieveRendezvousIP d cfg nms)
              = (Some rest, None)"
    by (auto split: option.splits)
  obtain A e where res: "RetrieveRendezvousIP d cfg nms = (A, e)"
    by (cases "RetrieveRendezvousIP d cfg nms")
  from b res have e: "e = None"
    by (cases e) (simp_all add: build_client_cases)
  from b res e have rest: "rest =
      \<lparr>Client = client_New \<lparr>URL = Some \<lparr>Scheme = ''http'', Host = JoinHostPort A ''8090'',
                                         Path = DefaultBasePath d\<rparr>\<rparr>,
       ctx = c,
       config = \<lparr>URL = Some \<lparr>Scheme = ''http'', Host = JoinHostPort A ''8090'',
                             Path = DefaultBasePath d\<rparr>\<rparr>,
       NodeZeroIP = A,
       NodeSSHKey = (case fst (Load_InstallConfig st) of
                       None \<Rightarrow> [] | Some i \<Rightarrow> [SSHKey (InstallConfig.Config i)])\<rparr>"
    by (simp add: build_client_cases)
  have ip: "NodeZeroIP rest = A" and cf: "config rest =
      \<lparr>URL = Some \<lparr>Scheme = ''http'', Host = JoinHostPort A ''8090'', Path = DefaultBasePath d\<rparr>\<rparr>"
    and cl: "Client rest = client_New (config rest)"
    by (simp_all add: rest)
  from p r(2) have calls: "retrieve_calls (snd (NewNodeZeroRestClient d c assetDir)) = [(cfg, nms)]"
    by simp
  have "\<exists>cfg nms. retrieve_calls (snd (NewNodeZeroRestClient d c assetDir)) = [(cfg, nms)]
          \<and> RetrieveRendezvousIP d cfg nms = (NodeZeroIP rest, None)"
    using calls res e ip by auto
  moreover have "config rest = \<lparr>URL = Some \<lparr>Scheme = ''http'',
        Host = JoinHostPort (NodeZeroIP rest) ''8090'', Path = DefaultBasePath d\<rparr>\<rparr>"
    using cf ip by simp
  moreover have "CHR '':'' \<notin> set (NodeZeroIP rest) \<longrightarrow>
          URL (config rest) = Some \<lparr>Scheme = ''http'', Host = NodeZeroIP rest @ '':8090'',
                                    Path = DefaultBasePath d\<rparr>"
    using cf ip by (simp add: JoinHostPort_def)
  moreover note cl
  moreover have "\<forall>ks. GetRestAPIServiceBaseURL (client_after_calls ks rest)
              = (Some \<lparr>Scheme = ''http'', Host = JoinHostPort (NodeZeroIP rest) ''8090'',
                       Path = DefaultBasePath d\<rparr>, rest, [])"
    using cf ip by (simp add: client_after_calls_same GetRestAPIServiceBaseURL_def)
  ultimately show
    "(\<exists>cfg nms. retrieve_calls (snd (NewNodeZeroRestClient d c assetDir)) = [(cfg, nms)]
          \<and> RetrieveRendezvousIP d cfg nms = (NodeZeroIP rest, None))
     \<and> config rest = \<lparr>URL = Some \<lparr>Scheme = ''http'',
                                  Host = JoinHostPort (NodeZeroIP rest) ''8090'',
                                  Path = DefaultBasePath d\<rparr>\<rparr>
     \<and> (CHR '':'' \<notin> set (NodeZeroIP rest) \<longrightarrow>
          URL (config rest) = Some \<lparr>Scheme = ''http'', Host = NodeZeroIP rest @ '':8090'',
                                    Path = DefaultBasePath d\<rparr>)
     \<and> Client rest = client_New (config rest)
     \<and> (\<forall>ks. GetRestAPIServiceBaseURL (client_after_calls ks rest)
              = (Some \<lparr>Scheme = ''http'', Host = JoinHostPort (NodeZeroIP rest) ''8090'',
                       Path = DefaultBasePath d\<rparr>, rest, []))"
    by blast
qed

text \<open>
  The scenario of the specification: no agent config, two host declarations, rendezvous
  address 10.0.0.5. The endpoint is http://10.0.0.5:8090/api/assisted-install, also after
  a failed liveness probe and a cluster lookup.
\<close>

theorem endpoint_fixed_at_construction_witness:
  "fst (NewNodeZeroRestClient
          (stub_deps (Inr (stub_Store (None, None) (Some stub_AgentManifests, None) (None, None))))
          (Context 0) ''assets'')
     = (Some stub_client, None)
   \<and> GetRestAPIServiceBaseURL stub_client
     = (Some \<lparr>Scheme = ''http'', Host = ''10.0.0.5:8090'', Path = ''/api/assisted-install''\<rparr>,
        stub_client, [])
   \<and> GetRestAPIServiceBaseURL
        (client_after_calls
           [(stub_remote (Inl (foreign ''connection refused'')) (Inr []) (Inr None),
             Call_IsRestAPILive),
            (stub_remote (Inr []) (Inr []) (Inr None), Call_getClusterID)]
           stub_client)
     = (Some \<lparr>Scheme = ''http'', Host = ''10.0.0.5:8090'', Path = ''/api/assisted-install''\<rparr>,
        stub_client, [])"
proof -
  have ok: "fst (NewNodeZeroRestClient
          (stub_deps (Inr (stub_Store (None, None) (Some stub_AgentManifests, None) (None, None))))
          (Context 0) ''assets'')
     = (Some stub_client, None)"
    by (simp add: NewNodeZeroRestClient_def build_client_def load_debug_def stub_deps_def
        stub_Store_def stub_client_def stub_RetrieveRendezvousIP_def stub_AgentManifests_def
        agent_Config_zero_def JoinHostPort_def Let_def)
  have ip: "JoinHostPort (NodeZeroIP stub_client) ''8090'' = ''10.0.0.5:8090''"
    by (simp add: stub_client_def JoinHostPort_def Let_def)
  have bp: "DefaultBasePath
      (stub_deps (Inr (stub_Store (None, None) (Some stub_AgentManifests, None) (None, None))))
     = ''/api/assisted-install''"
    by (simp add: stub_deps_def)
  from endpoint_fixed_at_construction
      [of "stub_deps (Inr (stub_Store (None, None) (Some stub_AgentManifests, None) (None, None)))"
          "Context 0" "''assets''" stub_client] ok
  have all: "\<forall>ks. GetRestAPIServiceBaseURL (client_after_calls ks stub_client)
              = (Some \<lparr>Scheme = ''http'', Host = ''10.0.0.5:8090'',
                       Path = ''/api/assisted-install''\<rparr>, stub_client, [])"
    unfolding ip bp by blast
  from all [rule_format, of "[]"] have one: "GetRestAPIServiceBaseURL stub_client
     = (Some \<lparr>Scheme = ''http'', Host = ''10.0.0.5:8090'', Path = ''/api/assisted-install''\<rparr>,
        stub_client, [])"
    by simp
  from ok one all show ?thesis by blast
qed

subsection \<open>When the rendezvous resolution is attempted\<close>

text \<open>
  A load that returns an error stops the constructor before the resolution. With the
  agent config loaded and the load of the host declarations failing, the derivation is
  not invoked; with neither of the two present and the load of the install config
  failing, the error is the one of the failed load, not "both AgentConfig and
  NMStateConfig are empty".
\<close>

theorem load_error_stops_resolution:
  "fst (Load_AgentConfig
          (stub_Store (Some stub_AgentConfig, None) (None, Some (foreign ''invalid NMStateConfig''))
             (None, None))) \<noteq> None
   \<and> retrieve_calls (snd (NewNodeZeroRestClient
          (stub_deps (Inr (stub_Store (Some stub_AgentConfig, None)
                             (None, Some (foreign ''invalid NMStateConfig'')) (None, None))))
          (Context 0) ''assets'')) = []
   \<and> fst (Load_AgentConfig
          (stub_Store (None, None) (None, None) (None, Some (foreign ''invalid install-config'')))) = None
   \<and> fst (Load_AgentManifests
          (stub_Store (None, None) (None, None) (None, Some (foreign ''invalid install-config'')))) = None
   \<and> fst (NewNodeZeroRestClient
          (stub_deps (Inr (stub_Store (None, None) (None, None)
                             (None, Some (foreign ''invalid install-config'')))))
          (Context 0) ''assets'')
       = (None, Some (errors_New ''failed to load AgentConfig, NMStateConfig, or InstallConfig''))"
  by (simp add: NewNodeZeroRestClient_def load_debug_def stub_deps_def stub_Store_def Let_def)

text \<open>
  Claim C2, as the code has it. Provided the asset store was created and none of the
  three loads returned an error: for all four combinations of agent config present or
  absent and host declarations present or absent, the derivation of the rendezvous
  address is invoked (once) exactly when at least one of the two is present; when that
  call returns without error the construction returns a client with the one address the
  call gave; when neither is present the constructor returns no client and the error
  "both AgentConfig and NMStateConfig are empty".
\<close>

theorem resolution_attempted_iff_input_present:
  "NewStore d assetDir = Inr st
   \<and> snd (Load_AgentConfig st) = None \<and> snd (Load_AgentManifests st) = None
   \<and> snd (Load_InstallConfig st) = None \<longrightarrow>
     (retrieve_calls (snd (NewNodeZeroRestClient d c assetDir)) \<noteq> [])
        = (fst (Load_AgentConfig st) \<noteq> None \<or> fst (Load_AgentManifests st) \<noteq> None)
     \<and> length (retrieve_calls (snd (NewNodeZeroRestClient d c assetDir))) \<le> 1
     \<and> (\<forall>cfg nms A.
           retrieve_calls (snd (NewNodeZeroRestClient d c assetDir)) = [(cfg, nms)]
           \<and> RetrieveRendezvousIP d cfg nms = (A, None) \<longrightarrow>
           (\<exists>rest. fst (NewNodeZeroRestClient d c assetDir) = (Some rest, None)
                \<and> NodeZeroIP rest = A))
     \<and> (fst (Load_AgentConfig st) = None \<and> fst (Load_AgentManifests st) = None \<longrightarrow>
           fst (NewNodeZeroRestClient d c assetDir)
             = (None, Some (errors_New ''both AgentConfig and NMStateConfig are empty'')))"
proof (intro impI, elim conjE)
  assume st: "NewStore d assetDir = Inr st"
    and ld: "snd (Load_AgentConfig st) = None" "snd (Load_AgentManifests st) = None"
      "snd (Load_InstallConfig st) = None"
  note r = New_loaded [OF st ld, of c]
  let ?p = "spec_precedence (fst (Load_AgentConfig st)) (fst (Load_AgentManifests st))"
  have a: "(retrieve_calls (snd (NewNodeZeroRestClient d c assetDir)) \<noteq> [])
        = (fst (Load_AgentConfig st) \<noteq> None \<or> fst (Load_AgentManifests st) \<noteq> None)"
    using r(2) spec_precedence_None [of "fst (Load_AgentConfig st)" "fst (Load_AgentManifests st)"]
    by (cases ?p) auto
  have b: "length (retrieve_calls (snd (NewNodeZeroRestClient d c assetDir))) \<le> 1"
    using r(2) by (cases ?p) auto
  have s: "\<forall>cfg nms A.
           retrieve_calls (snd (NewNodeZeroRestClient d c assetDir)) = [(cfg, nms)]
           \<and> RetrieveRendezvousIP d cfg nms = (A, None) \<longrightarrow>
           (\<exists>rest. fst (NewNodeZeroRestClient d c assetDir) = (Some rest, None)
                \<and> NodeZeroIP rest = A)"
  proof (intro allI impI, elim conjE)
    fix cfg nms A
    assume calls: "retrieve_calls (snd (NewNodeZeroRestClient d c assetDir)) = [(cfg, nms)]"
      and res: "RetrieveRendezvousIP d cfg nms = (A, None)"
    from calls r(2) have p: "?p = Some (cfg, nms)"
      by (cases ?p) auto
    from r(1) p have "fst (NewNodeZeroRestClient d c assetDir)
        = build_client d c (fst (Load_InstallConfig st)) (RetrieveRendezvousIP d cfg nms)"
      by simp
    with build_client_result(1) [OF res, of c "fst (Load_InstallConfig st)"]
    show "\<exists>rest. fst (NewNodeZeroRestClient d c assetDir) = (Some rest, None)
                \<and> NodeZeroIP rest = A"
      by simp
  qed
  have n: "fst (Load_AgentConfig st) = None \<and> fst (Load_AgentManifests st) = None \<longrightarrow>
           fst (NewNodeZeroRestClient d c assetDir)
             = (None, Some (errors_New ''both AgentConfig and NMStateConfig are empty''))"
    using r(1) by (auto simp: spec_precedence_def)
  from a b s n show
    "(retrieve_calls (snd (NewNodeZeroRestClient d c assetDir)) \<noteq> [])
        = (fst (Load_AgentConfig st) \<noteq> None \<or> fst (Load_AgentManifests st) \<noteq> None)
     \<and> length (retrieve_calls (snd (NewNodeZeroRestClient d c assetDir))) \<le> 1
     \<and> (\<forall>cfg nms A.
           retrieve_calls (snd (NewNodeZeroRestClient d c assetDir)) = [(cfg, nms)]
           \<and> RetrieveRendezvousIP d cfg nms = (A, None) \<longrightarrow>
           (\<exists>rest. fst (NewNodeZeroRestClient d c assetDir) = (Some rest, None)
                \<and> NodeZeroIP rest = A))
     \<and> (fst (Load_AgentConfig st) = None \<and> fst (Load_AgentManifests st) = None \<longrightarrow>
           fst (NewNodeZeroRestClient d c assetDir)
             = (None, Some (errors_New ''both AgentConfig and NMStateConfig are empty'')))"
    by blast
qed

text \<open>The four combinations on stub assets, all loads without error.\<close>

theorem resolution_attempted_iff_input_present_witness:
  "fst (NewNodeZeroRestClient
          (stub_deps (Inr (stub_Store (None, None) (None, None) (Some stub_InstallConfig, None))))
          (Context 0) ''assets'')
     = (None, Some (errors_New ''both AgentConfig and NMStateConfig are empty''))
   \<and> retrieve_calls (snd (NewNodeZeroRestClient
          (stub_deps (Inr (stub_Store (None, None) (None, None) (Some stub_InstallConfig, None))))
          (Context 0) ''assets'')) = []
   \<and> retrieve_calls (snd (NewNodeZeroRestClient
          (stub_deps (Inr (stub_Store (Some stub_AgentConfig, None) (None, None) (None, None))))
          (Context 0) ''assets'')) \<noteq> []
   \<and> retrieve_calls (snd (NewNodeZeroRestClient
          (stub_deps (Inr (stub_Store (None, None) (Some stub_AgentManifests, None) (None, None))))
          (Context 0) ''assets'')) \<noteq> []
   \<and> retrieve_calls (snd (NewNodeZeroRestClient
          (stub_deps (Inr (stub_Store (Some stub_AgentConfig, None)
                             (Some stub_AgentManifests, None) (None, None))))
          (Context 0) ''assets'')) \<noteq> []"
  using
    resolution_attempted_iff_input_present
      [of "stub_deps (Inr (stub_Store (None, None) (None, None) (Some stub_InstallConfig, None)))"
          "''assets''" "stub_Store (None, None) (None, None) (Some stub_InstallConfig, None)"
          "Context 0"]
    resolution_attempted_iff_input_present
      [of "stub_deps (Inr (stub_Store (Some stub_AgentConfig, None) (None, None) (None, None)))"
          "''assets''" "stub_Store (Some stub_AgentConfig, None) (None, None) (None, None)"
          "Context 0"]
    resolution_attempted_iff_input_present
      [of "stub_deps (Inr (stub_Store (None, None) (Some stub_AgentManifests, None) (None, None)))"
          "''assets''" "stub_Store (None, None) (Some stub_AgentManifests, None) (None, None)"
          "Context 0"]
    resolution_attempted_iff_input_present
      [of "stub_deps (Inr (stub_Store (Some stub_AgentConfig, None)
                             (Some stub_AgentManifests, None) (None, None)))"
          "''assets''"
          "stub_Store (Some stub_AgentConfig, None) (Some stub_AgentManifests, None) (None, None)"
          "Context 0"]
  by (simp add: stub_deps_def stub_Store_def)

subsection \<open>The three loads\<close>

text \<open>
  A failed load of the install config alone, with agent config and host declarations
  loaded: all three loads were made, the failure is logged at debug level, and the
  constructor returns no client. With the install config merely absent (no asset, no
  error) the same store gives a client.
\<close>

theorem install_config_load_error_aborts:
  "load_calls (snd (NewNodeZeroRestClient
       (stub_deps (Inr (stub_Store (Some stub_AgentConfig, None) (Some stub_AgentManifests, None)
                          (None, Some (foreign ''invalid install-config'')))))
       (Context 0) ''assets''))
     = [AgentConfigAsset, AgentManifestsAsset, InstallConfigAsset]
   \<and> NewNodeZeroRestClient
       (stub_deps (Inr (stub_Store (Some stub_AgentConfig, None) (Some stub_AgentManifests, None)
                          (None, Some (foreign ''invalid install-config'')))))
       (Context 0) ''assets''
     = ((None, Some (errors_New ''failed to load AgentConfig, NMStateConfig, or InstallConfig'')),
        [Ev_NewStore ''assets'', Ev_Load AgentConfigAsset, Ev_Load AgentManifestsAsset,
         Ev_Load InstallConfigAsset,
         Ev_Log (Debug_error (errors_Wrap (foreign ''invalid install-config'')
                   ''failed to load Install Config''))])
   \<and> fst (NewNodeZeroRestClient
       (stub_deps (Inr (stub_Store (Some stub_AgentConfig, None) (Some stub_AgentManifests, None)
                          (None, None))))
       (Context 0) ''assets'')
     = (Some (stub_client_pinned\<lparr>NodeSSHKey := []\<rparr>), None)"
  by (simp add: NewNodeZeroRestClient_def build_client_def load_debug_def stub_deps_def
        stub_Store_def stub_client_pinned_def stub_RetrieveRendezvousIP_def
        stub_AgentManifests_def stub_AgentConfig_def JoinHostPort_def Let_def)

text \<open>
  Claim C5, as the code has it. Once the asset store is created, the three loads (agent
  config, host declarations, install config) are each made, whatever the others return.
  A load that returns an error aborts the construction with the error "failed to load
  AgentConfig, NMStateConfig, or InstallConfig". The construction tolerates any one of
  the three assets being absent (a nil asset, returned without error): with no load
  error and at most one asset absent the derivation of the rendezvous address is invoked
  once, and the constructor returns a client when that call succeeds and the error of
  that call otherwise.
\<close>

theorem loads_attempted_error_aborts_absence_tolerated:
  "NewStore d assetDir = Inr st \<longrightarrow>
     load_calls (snd (NewNodeZeroRestClient d c assetDir))
       = [AgentConfigAsset, AgentManifestsAsset, InstallConfigAsset]
     \<and> (snd (Load_AgentConfig st) \<noteq> None \<or> snd (Load_AgentManifests st) \<noteq> None
          \<or> snd (Load_InstallConfig st) \<noteq> None \<longrightarrow>
          fst (NewNodeZeroRestClient d c assetDir)
            = (None, Some (errors_New
                 ''failed to load AgentConfig, NMStateConfig, or InstallConfig'')))
     \<and> (snd (Load_AgentConfig st) = None \<and> snd (Load_AgentManifests st) = None
          \<and> snd (Load_InstallConfig st) = None
          \<and> ((fst (Load_AgentConfig st) \<noteq> None \<and> fst (Load_AgentManifests st) \<noteq> None)
              \<or> (fst (Load_AgentConfig st) \<noteq> None \<and> fst (Load_InstallConfig st) \<noteq> None)
              \<or> (fst (Load_AgentManifests st) \<noteq> None \<and> fst (Load_InstallConfig st) \<noteq> None))
          \<longrightarrow>
          (\<exists>cfg nms.
              retrieve_calls (snd (NewNodeZeroRestClient d c assetDir)) = [(cfg, nms)]
              \<and> (\<forall>A. RetrieveRendezvousIP d cfg nms = (A, None) \<longrightarrow>
                    (\<exists>rest. fst (NewNodeZeroRestClient d c assetDir) = (Some rest, None)
                         \<and> NodeZeroIP rest = A))
              \<and> (\<forall>A e. RetrieveRendezvousIP d cfg nms = (A, Some e) \<longrightarrow>
                    fst (NewNodeZeroRestClient d c assetDir) = (None, Some e))))"
proof
  assume st: "NewStore d assetDir = Inr st"
  have l: "load_calls (snd (NewNodeZeroRestClient d c assetDir))
       = [AgentConfigAsset, AgentManifestsAsset, InstallConfigAsset]"
    by (rule New_loads [OF st])
  have e: "snd (Load_AgentConfig st) \<noteq> None \<or> snd (Load_AgentManifests st) \<noteq> None
          \<or> snd (Load_InstallConfig st) \<noteq> None \<longrightarrow>
          fst (NewNodeZeroRestClient d c assetDir)
            = (None, Some (errors_New
                 ''failed to load AgentConfig, NMStateConfig, or InstallConfig''))"
    using New_load_error(1) [OF st, of c] by blast
  have t: "snd (Load_AgentConfig st) = None \<and> snd (Load_AgentManifests st) = None
          \<and> snd (Load_InstallConfig st) = None
          \<and> ((fst (Load_AgentConfig st) \<noteq> None \<and> fst (Load_AgentManifests st) \<noteq> None)
              \<or> (fst (Load_AgentConfig st) \<noteq> None \<and> fst (Load_InstallConfig st) \<noteq> None)
              \<or> (fst (Load_AgentManifests st) \<noteq> None \<and> fst (Load_InstallConfig st) \<noteq> None))
          \<longrightarrow>
          (\<exists>cfg nms.
              retrieve_calls (snd (NewNodeZeroRestClient d c assetDir)) = [(cfg, nms)]
              \<and> (\<forall>A. RetrieveRendezvousIP d cfg nms = (A, None) \<longrightarrow>
                    (\<exists>rest. fst (NewNodeZeroRestClient d c assetDir) = (Some rest, None)
                         \<and> NodeZeroIP rest = A))
              \<and> (\<forall>A e. RetrieveRendezvousIP d cfg nms = (A, Some e) \<longrightarrow>
                    fst (NewNodeZeroRestClient d c assetDir) = (None, Some e)))"
  proof (intro impI, elim conjE)
    assume ld: "snd (Load_AgentConfig st) = None" "snd (Load_AgentManifests st) = None"
      "snd (Load_InstallConfig st) = None"
      and two: "(fst (Load_AgentConfig st) \<noteq> None \<and> fst (Load_AgentManifests st) \<noteq> None)
              \<or> (fst (Load_AgentConfig st) \<noteq> None \<and> fst (Load_InstallConfig st) \<noteq> None)
              \<or> (fst (Load_AgentManifests st) \<noteq> None \<and> fst (Load_InstallConfig st) \<noteq> None)"
    note r = New_loaded [OF st ld, of c]
    from two have "\<not> (fst (Load_AgentConfig st) = None \<and> fst (Load_AgentManifests st) = None)"
      by blast
    then obtain cfg nms where
      p: "spec_precedence (fst (Load_AgentConfig st)) (fst (Load_AgentManifests st)) = Some (cfg, nms)"
      using spec_precedence_None [of "fst (Load_AgentConfig st)" "fst (Load_AgentManifests st)"]
      by (cases "spec_precedence (fst (Load_AgentConfig st)) (fst (Load_AgentManifests st))") auto
    from r p have calls: "retrieve_calls (snd (NewNodeZeroRestClient d c assetDir)) = [(cfg, nms)]"
      and res: "fst (NewNodeZeroRestClient d c assetDir)
        = build_client d c (fst (Load_InstallConfig st)) (RetrieveRendezvousIP d cfg nms)"
      by simp_all
    have "\<forall>A. RetrieveRendezvousIP d cfg nms = (A, None) \<longrightarrow>
                    (\<exists>rest. fst (NewNodeZeroRestClient d c assetDir) = (Some rest, None)
                         \<and> NodeZeroIP rest = A)"
      using res build_client_result(1) [of d cfg nms _ c "fst (Load_InstallConfig st)"]
      by auto
    moreover have "\<forall>A e. RetrieveRendezvousIP d cfg nms = (A, Some e) \<longrightarrow>
                    fst (NewNodeZeroRestClient d c assetDir) = (None, Some e)"
      using res build_client_result(2) [of d cfg nms _ _ c "fst (Load_InstallConfig st)"]
      by auto
    ultimately show "\<exists>cfg nms.
              retrieve_calls (snd (NewNodeZeroRestClient d c assetDir)) = [(cfg, nms)]
              \<and> (\<forall>A. RetrieveRendezvousIP d cfg nms = (A, None) \<longrightarrow>
                    (\<exists>rest. fst (NewNodeZeroRestClient d c assetDir) = (Some rest, None)
                         \<and> NodeZeroIP rest = A))
              \<and> (\<forall>A e. RetrieveRendezvousIP d cfg nms = (A, Some e) \<longrightarrow>
                    fst (NewNodeZeroRestClient d c assetDir) = (None, Some e))"
      using calls by blast
  qed
  from l e t show
    "load_calls (snd (NewNodeZeroRestClient d c assetDir))
       = [AgentConfigAsset, AgentManifestsAsset, InstallConfigAsset]
     \<and> (snd (Load_AgentConfig st) \<noteq> None \<or> snd (Load_AgentManifests st) \<noteq> None
          \<or> snd (Load_InstallConfig st) \<noteq> None \<longrightarrow>
          fst (NewNodeZeroRestClient d c assetDir)
            = (None, Some (errors_New
                 ''failed to load AgentConfig, NMStateConfig, or InstallConfig'')))
     \<and> (snd (Load_AgentConfig st) = None \<and> snd (Load_AgentManifests st) = None
          \<and> snd (Load_InstallConfig st) = None
          \<and> ((fst (Load_AgentConfig st) \<noteq> None \<and> fst (Load_AgentManifests st) \<noteq> None)
              \<or> (fst (Load_AgentConfig st) \<noteq> None \<and> fst (Load_InstallConfig st) \<noteq> None)
              \<or> (fst (Load_AgentManifests st) \<noteq> None \<and> fst (Load_InstallConfig st) \<noteq> None))
          \<longrightarrow>
          (\<exists>cfg nms.
              retrieve_calls (snd (NewNodeZeroRestClient d c assetDir)) = [(cfg, nms)]
              \<and> (\<forall>A. RetrieveRendezvousIP d cfg nms = (A, None) \<longrightarrow>
                    (\<exists>rest. fst (NewNodeZeroRestClient d c assetDir) = (Some rest, None)
                         \<and> NodeZeroIP rest = A))
              \<and> (\<forall>A e. RetrieveRendezvousIP d cfg nms = (A, Some e) \<longrightarrow>
                    fst (NewNodeZeroRestClient d c assetDir) = (None, Some e))))"
    by blast
qed

text \<open>
  A failing load of the agent config, then each of the three assets absent in turn with
  the other two loaded.
\<close>

theorem loads_attempted_error_aborts_absence_tolerated_witness:
  "load_calls (snd (NewNodeZeroRestClient
       (stub_deps (Inr (stub_Store (None, Some (foreign ''invalid agent-config''))
                          (Some stub_AgentManifests, None) (Some stub_InstallConfig, None))))
       (Context 0) ''assets''))
     = [AgentConfigAsset, AgentManifestsAsset, InstallConfigAsset]
   \<and> fst (NewNodeZeroRestClient
       (stub_deps (Inr (stub_Store (None, Some (foreign ''invalid agent-config''))
                          (Some stub_AgentManifests, None) (Some stub_InstallConfig, None))))
       (Context 0) ''assets'')
     = (None, Some (errors_New ''failed to load AgentConfig, NMStateConfig, or InstallConfig''))
   \<and> length (retrieve_calls (snd (NewNodeZeroRestClient
       (stub_deps (Inr (stub_Store (None, None)
                          (Some stub_AgentManifests, None) (Some stub_InstallConfig, None))))
       (Context 0) ''assets''))) = 1
   \<and> length (retrieve_calls (snd (NewNodeZeroRestClient
       (stub_deps (Inr (stub_Store (Some stub_AgentConfig, None)
                          (None, None) (Some stub_InstallConfig, None))))
       (Context 0) ''assets''))) = 1
   \<and> length (retrieve_calls (snd (NewNodeZeroRestClient
       (stub_deps (Inr (stub_Store (Some stub_AgentConfig, None)
                          (Some stub_AgentManifests, None) (None, None))))
       (Context 0) ''assets''))) = 1"
  using
    loads_attempted_error_aborts_absence_tolerated
      [of "stub_deps (Inr (stub_Store (None, Some (foreign ''invalid agent-config''))
                          (Some stub_AgentManifests, None) (Some stub_InstallConfig, None)))"
          "''assets''"
          "stub_Store (None, Some (foreign ''invalid agent-config''))
             (Some stub_AgentManifests, None) (Some stub_InstallConfig, None)"
          "Context 0"]
    loads_attempted_error_aborts_absence_tolerated
      [of "stub_deps (Inr (stub_Store (None, None)
                          (Some stub_AgentManifests, None) (Some stub_InstallConfig, None)))"
          "''assets''"
          "stub_Store (None, None) (Some stub_AgentManifests, None) (Some stub_InstallConfig, None)"
          "Context 0"]
    loads_attempted_error_aborts_absence_tolerated
      [of "stub_deps (Inr (stub_Store (Some stub_AgentConfig, None)
                          (None, None) (Some stub_InstallConfig, None)))"
          "''assets''"
          "stub_Store (Some stub_AgentConfig, None) (None, None) (Some stub_InstallConfig, None)"
          "Context 0"]
    loads_attempted_error_aborts_absence_tolerated
      [of "stub_deps (Inr (stub_Store (Some stub_AgentConfig, None)
                          (Some stub_AgentManifests, None) (None, None)))"
          "''assets''"
          "stub_Store (Some stub_AgentConfig, None) (Some stub_AgentManifests, None) (None, None)"
          "Context 0"]
  by (auto simp add: stub_deps_def stub_Store_def)

end
